theory Spec2Isabelle
  imports Main
begin

section \<open>Python values handled by the server\<close>

text \<open>
  The handler of \<^verbatim>\<open>backend/server.py\<close> receives JSON, passes it through library
  calls and inspects what comes back with \<^verbatim>\<open>isinstance\<close>, truthiness tests,
  \<^verbatim>\<open>str\<close> and \<^verbatim>\<open>json.dumps\<close>. The values it can see are the JSON-shaped
  Python values below. A Python string is a sequence of code points; the model writes it
  as a \<^typ>\<open>string\<close> whose characters stand for the code points below 256, so that
  \<^const>\<open>length\<close> and \<^const>\<open>take\<close> count what Python's \<^verbatim>\<open>len\<close> and slicing count.
  A dictionary is an association list in insertion order, which is the order of
  \<^verbatim>\<open>obj.values()\<close>.

  A float is observed by the handler only through its truth value and its printed forms,
  so a finite float carries exactly these: whether it is nonzero, and its \<^verbatim>\<open>repr\<close>.
\<close>

datatype pyfloat = FNaN | FPosInf | FNegInf | FFinite bool string

datatype pyval =
    PNone
  | PBool bool
  | PInt int
  | PFloat pyfloat
  | PStr string
  | PList "pyval list"
  | PDict "(string \<times> pyval) list"

text \<open>Truth value testing, as \<^verbatim>\<open>if v\<close>, \<^verbatim>\<open>not v\<close> and \<^verbatim>\<open>a or b\<close> apply it.\<close>

fun truthy :: "pyval \<Rightarrow> bool" where
  "truthy PNone = False"
| "truthy (PBool b) = b"
| "truthy (PInt i) = (i \<noteq> 0)"
| "truthy (PFloat FNaN) = True"
| "truthy (PFloat FPosInf) = True"
| "truthy (PFloat FNegInf) = True"
| "truthy (PFloat (FFinite nz r)) = nz"
| "truthy (PStr s) = (s \<noteq> [])"
| "truthy (PList xs) = (xs \<noteq> [])"
| "truthy (PDict kvs) = (kvs \<noteq> [])"

text \<open>\<^verbatim>\<open>a or b\<close> evaluates to \<^verbatim>\<open>a\<close> when it is truthy and to \<^verbatim>\<open>b\<close> otherwise.\<close>

definition py_or :: "pyval \<Rightarrow> pyval \<Rightarrow> pyval" where
  "py_or a b = (if truthy a then a else b)"

fun is_dict :: "pyval \<Rightarrow> bool" where
  "is_dict (PDict kvs) = True"
| "is_dict v = False"

fun is_list :: "pyval \<Rightarrow> bool" where
  "is_list (PList xs) = True"
| "is_list v = False"

fun type_name :: "pyval \<Rightarrow> string" where
  "type_name PNone = ''NoneType''"
| "type_name (PBool b) = ''bool''"
| "type_name (PInt i) = ''int''"
| "type_name (PFloat f) = ''float''"
| "type_name (PStr s) = ''str''"
| "type_name (PList xs) = ''list''"
| "type_name (PDict kvs) = ''dict''"

subsection \<open>Dictionary access\<close>

text \<open>\<^verbatim>\<open>k in obj\<close>, \<^verbatim>\<open>obj.get(k)\<close> (\<^verbatim>\<open>None\<close> for a missing key) and
  \<^verbatim>\<open>obj.get(k, default)\<close>.\<close>

definition dict_in :: "(string \<times> pyval) list \<Rightarrow> string \<Rightarrow> bool" where
  "dict_in kvs k = (map_of kvs k \<noteq> None)"

definition dict_get_default :: "(string \<times> pyval) list \<Rightarrow> string \<Rightarrow> pyval \<Rightarrow> pyval" where
  "dict_get_default kvs k d = (case map_of kvs k of None \<Rightarrow> d | Some v \<Rightarrow> v)"

definition dict_get :: "(string \<times> pyval) list \<Rightarrow> string \<Rightarrow> pyval" where
  "dict_get kvs k = dict_get_default kvs k PNone"

subsection \<open>Printing: \<^verbatim>\<open>str\<close>, \<^verbatim>\<open>repr\<close> and \<^verbatim>\<open>json.dumps\<close>\<close>

fun join :: "string \<Rightarrow> string list \<Rightarrow> string" where
  "join sep [] = []"
| "join sep [x] = x"
| "join sep (x # y # ys) = x @ sep @ join sep (y # ys)"

definition hex_digit :: "nat \<Rightarrow> char" where
  "hex_digit d = ''0123456789abcdef'' ! (d mod 16)"

definition hex2 :: "char \<Rightarrow> string" where
  "hex2 c = [hex_digit (of_char c div 16), hex_digit (of_char c mod 16)]"

fun str_nat :: "nat \<Rightarrow> string" where
  "str_nat n = (if n < 10 then [hex_digit n] else str_nat (n div 10) @ [hex_digit (n mod 10)])"

definition str_int :: "int \<Rightarrow> string" where
  "str_int i = (if i < 0 then CHR ''-'' # str_nat (nat (- i)) else str_nat (nat i))"

fun float_repr :: "pyfloat \<Rightarrow> string" where
  "float_repr FNaN = ''nan''"
| "float_repr FPosInf = ''inf''"
| "float_repr FNegInf = ''-inf''"
| "float_repr (FFinite nz r) = r"

fun float_json :: "pyfloat \<Rightarrow> string" where
  "float_json FNaN = ''NaN''"
| "float_json FPosInf = ''Infinity''"
| "float_json FNegInf = ''-Infinity''"
| "float_json (FFinite nz r) = r"

text \<open>
  \<^verbatim>\<open>repr\<close> of a string: double quotes when the text has a single quote and no double
  quote, single quotes otherwise; the quote and the backslash are escaped, tab, newline and
  carriage return get their short escapes, and the remaining unprintable code points below
  256 (the control characters, \<^verbatim>\<open>0x7f\<close>--\<^verbatim>\<open>0xa0\<close> and \<^verbatim>\<open>0xad\<close>) are written
  \<^verbatim>\<open>\xNN\<close>.
\<close>

definition unprintable :: "char \<Rightarrow> bool" where
  "unprintable c = (let n = (of_char c :: nat) in n < 32 \<or> (127 \<le> n \<and> n \<le> 160) \<or> n = 173)"

definition repr_char :: "char \<Rightarrow> char \<Rightarrow> string" where
  "repr_char q c =
     (if c = q \<or> c = CHR 0x5C then [CHR 0x5C, c]
      else if c = CHR 0x09 then [CHR 0x5C, CHR ''t'']
      else if c = CHR 0x0A then [CHR 0x5C, CHR ''n'']
      else if c = CHR 0x0D then [CHR 0x5C, CHR ''r'']
      else if unprintable c then [CHR 0x5C, CHR ''x''] @ hex2 c
      else [c])"

definition repr_str :: "string \<Rightarrow> string" where
  "repr_str s =
     (let q = (if CHR 0x27 \<in> set s \<and> CHR 0x22 \<notin> set s then CHR 0x22 else CHR 0x27)
      in q # concat (map (repr_char q) s) @ [q])"

fun py_repr :: "pyval \<Rightarrow> string" where
  "py_repr PNone = ''None''"
| "py_repr (PBool b) = (if b then ''True'' else ''False'')"
| "py_repr (PInt i) = str_int i"
| "py_repr (PFloat f) = float_repr f"
| "py_repr (PStr s) = repr_str s"
| "py_repr (PList xs) = ''['' @ join '', '' (map py_repr xs) @ '']''"
| "py_repr (PDict kvs) =
     ''{'' @ join '', '' (map (\<lambda>(k, v). repr_str k @ '': '' @ py_repr v) kvs) @ ''}''"

text \<open>\<^verbatim>\<open>str(v)\<close>, which is also what an f-string field \<^verbatim>\<open>{v}\<close> inserts: the text
  itself for a string, the \<^verbatim>\<open>repr\<close> for every other value.\<close>

fun py_str :: "pyval \<Rightarrow> string" where
  "py_str (PStr s) = s"
| "py_str v = py_repr v"

text \<open>
  \<^verbatim>\<open>json.dumps(v, ensure_ascii=False)\<close> with the default separators: inside a string
  only the double quote, the backslash and the control characters below \<^verbatim>\<open>0x20\<close>
  are escaped.
\<close>

definition json_char :: "char \<Rightarrow> string" where
  "json_char c =
     (if c = CHR 0x22 then [CHR 0x5C, CHR 0x22]
      else if c = CHR 0x5C then [CHR 0x5C, CHR 0x5C]
      else if c = CHR 0x0A then [CHR 0x5C, CHR ''n'']
      else if c = CHR 0x0D then [CHR 0x5C, CHR ''r'']
      else if c = CHR 0x09 then [CHR 0x5C, CHR ''t'']
      else if c = CHR 0x08 then [CHR 0x5C, CHR ''b'']
      else if c = CHR 0x0C then [CHR 0x5C, CHR ''f'']
      else if (of_char c :: nat) < 32 then [CHR 0x5C, CHR ''u'', CHR ''0'', CHR ''0''] @ hex2 c
      else [c])"

definition json_str :: "string \<Rightarrow> string" where
  "json_str s = CHR 0x22 # concat (map json_char s) @ [CHR 0x22]"

fun json_dumps :: "pyval \<Rightarrow> string" where
  "json_dumps PNone = ''null''"
| "json_dumps (PBool b) = (if b then ''true'' else ''false'')"
| "json_dumps (PInt i) = str_int i"
| "json_dumps (PFloat f) = float_json f"
| "json_dumps (PStr s) = json_str s"
| "json_dumps (PList xs) = ''['' @ join '', '' (map json_dumps xs) @ '']''"
| "json_dumps (PDict kvs) =
     ''{'' @ join '', '' (map (\<lambda>(k, v). json_str k @ '': '' @ json_dumps v) kvs) @ ''}''"

text \<open>\<^verbatim>\<open>s.strip()\<close> removes the white space at both ends; below 256 the white-space
  code points are \<^verbatim>\<open>0x09\<close>--\<^verbatim>\<open>0x0d\<close>, \<^verbatim>\<open>0x1c\<close>--\<^verbatim>\<open>0x20\<close>, \<^verbatim>\<open>0x85\<close>
  and \<^verbatim>\<open>0xa0\<close>.\<close>

definition is_space :: "char \<Rightarrow> bool" where
  "is_space c = (let n = (of_char c :: nat)
                 in (9 \<le> n \<and> n \<le> 13) \<or> (28 \<le> n \<and> n \<le> 32) \<or> n = 133 \<or> n = 160)"

definition py_strip :: "string \<Rightarrow> string" where
  "py_strip s = rev (dropWhile is_space (rev (dropWhile is_space s)))"

section \<open>The concise summary: \<^verbatim>\<open>_concise_from_structured\<close>\<close>

text \<open>
  Lines 236--256 of \<^verbatim>\<open>server.py\<close>. The result is \<^const>\<open>None\<close> where the Python
  returns \<^verbatim>\<open>None\<close>. The \<^verbatim>\<open>except Exception: return None\<close> clause guards
  \<^verbatim>\<open>str\<close> and \<^verbatim>\<open>json.dumps\<close>, which do not raise on the values of \<^typ>\<open>pyval\<close>.
\<close>

definition serialize_value :: "pyval \<Rightarrow> string" where
  "serialize_value v = (if is_list v \<or> is_dict v then json_dumps v else py_str v)"

definition first_of :: "pyval \<Rightarrow> pyval" where
  "first_of sections = (case sections of PList (x # xs) \<Rightarrow> x | _ \<Rightarrow> sections)"

definition concise_from_structured :: "pyval \<Rightarrow> string option" where
  "concise_from_structured obj =
     (case obj of
        PDict kvs \<Rightarrow>
          if dict_in kvs ''answer'' \<and> truthy (dict_get kvs ''answer'')
          then Some (py_strip (py_str (dict_get kvs ''answer'')))
          else if dict_in kvs ''summary'' \<and> truthy (dict_get kvs ''summary'')
          then Some (py_strip (py_str (dict_get kvs ''summary'')))
          else
            let title = py_or (dict_get kvs ''title'') (dict_get kvs ''heading'');
                sections = py_or (py_or (dict_get kvs ''sections'') (dict_get kvs ''bullets''))
                                 (dict_get kvs ''body'')
            in if truthy title \<and> truthy sections
               then Some (py_str title @ '': '' @ py_str (first_of sections))
               else Some (take 2000
                       (join '' '' (map serialize_value (filter truthy (map snd kvs)))))
      | PList xs \<Rightarrow> Some (join '' '' (take 5 (map py_str (filter truthy xs))))
      | _ \<Rightarrow> None)"

text \<open>Line 258: \<^verbatim>\<open>concise = _concise_from_structured(parsed) or ""\<close>.\<close>

definition concise_of :: "pyval \<Rightarrow> string" where
  "concise_of parsed =
     (case concise_from_structured parsed of None \<Rightarrow> [] | Some s \<Rightarrow> if s = [] then [] else s)"

section \<open>Exceptions, responses and the library calls\<close>

text \<open>
  The exceptions the handler can meet: the two the interpreter raises in its own code
  (reading a local name that was never assigned, calling \<^verbatim>\<open>.get\<close> on a value without
  that attribute) and any \<^verbatim>\<open>Exception\<close> raised inside a library call, which carries
  its message. \<^verbatim>\<open>UnboundLocalError\<close> is a subclass of \<^verbatim>\<open>NameError\<close>.
\<close>

datatype exn =
    UnboundLocalError string
  | AttributeError string string
  | Failure string

fun is_NameError :: "exn \<Rightarrow> bool" where
  "is_NameError (UnboundLocalError v) = True"
| "is_NameError e = False"

text \<open>\<^verbatim>\<open>str(e)\<close>, with the interpreter's wording for its own two exceptions.\<close>

fun exn_str :: "exn \<Rightarrow> string" where
  "exn_str (UnboundLocalError v) =
     ''cannot access local variable '' @ [CHR 0x27] @ v @ [CHR 0x27]
       @ '' where it is not associated with a value''"
| "exn_str (AttributeError t a) =
     [CHR 0x27] @ t @ [CHR 0x27] @ '' object has no attribute '' @ [CHR 0x27] @ a @ [CHR 0x27]"
| "exn_str (Failure m) = m"

text \<open>\<^verbatim>\<open>data.get(k)\<close> and \<^verbatim>\<open>raw_answer.get(k, d)\<close>: only a dictionary has the method.\<close>

definition py_get :: "pyval \<Rightarrow> string \<Rightarrow> pyval \<Rightarrow> exn + pyval" where
  "py_get obj k d =
     (case obj of
        PDict kvs \<Rightarrow> Inr (dict_get_default kvs k d)
      | _ \<Rightarrow> Inl (AttributeError (type_name obj) ''get''))"

text \<open>A Flask response: \<^verbatim>\<open>jsonify(payload), status\<close>; a bare \<^verbatim>\<open>jsonify(payload)\<close>
  has status 200.\<close>

record response =
  status :: nat
  body :: "(string \<times> pyval) list"

definition error_response :: "nat \<Rightarrow> string \<Rightarrow> response" where
  "error_response code msg = \<lparr>status = code, body = [(''error'', PStr msg)]\<rparr>"

text \<open>How a block of statements ends: it runs to its end, returns, or raises.\<close>

datatype completion = Normal | Return response | Raise exn

text \<open>
  The module-level handles, each \<^const>\<open>None\<close> when its initialisation failed
  (lines 15--54 and 81--130), and the format instructions of the parser.
\<close>

datatype llm_handle = ChatModel string
datatype emb_handle = EmbeddingModel string
datatype parser_handle = StructuredParser "string list"

record globals =
  llm :: "llm_handle option"
  embeddings :: "emb_handle option"
  structured_parser :: "parser_handle option"
  format_instructions :: string

text \<open>
  The objects the LangChain calls build, named by what they were built from, and the
  calls themselves. Their code is not part of the repository: each is a parameter that
  returns a value or raises. (One request makes each call at most once, so a function
  of the arguments loses nothing.)
\<close>

type_synonym document = string

datatype vectorstore = VectorStore "document list" emb_handle

datatype qa_chain = QAChain llm_handle string vectorstore

text \<open>The object \<^verbatim>\<open>llm.invoke\<close> returns: with a \<^verbatim>\<open>content\<close> attribute, or
  without one, when only its \<^verbatim>\<open>str\<close> is used.\<close>

datatype llm_result = Message pyval | Plain string

record lib =
  loader_load :: "pyval \<Rightarrow> exn + document list"
  split_documents :: "nat \<Rightarrow> nat \<Rightarrow> document list \<Rightarrow> exn + document list"
  from_documents :: "document list \<Rightarrow> emb_handle \<Rightarrow> exn + vectorstore"
  from_chain_type :: "llm_handle \<Rightarrow> string \<Rightarrow> vectorstore \<Rightarrow> exn + qa_chain"
  chain_invoke :: "qa_chain \<Rightarrow> pyval \<Rightarrow> exn + pyval"
  llm_invoke :: "llm_handle \<Rightarrow> string \<Rightarrow> exn + llm_result"
  parser_parse :: "parser_handle \<Rightarrow> pyval \<Rightarrow> exn + pyval"

text \<open>The request: \<^verbatim>\<open>request.json\<close> yields the decoded body or raises.\<close>

record request =
  request_json :: "exn + pyval"

text \<open>The library calls a request makes, in order, each recorded when it is made;
  the two whose result a later step depends on carry it.\<close>

datatype event =
    Fetch pyval
  | Chunk nat nat
  | Embed
  | BuildChain
  | Synthesize pyval "exn + pyval"
  | Reformat string
  | Parse pyval "exn + pyval"

section \<open>The handler: \<^verbatim>\<open>handle_query\<close>\<close>

text \<open>The two local names the \<^verbatim>\<open>finally\<close> block reads; \<^const>\<open>None\<close> is unbound.\<close>

record locals =
  raw_answer :: "pyval option"
  answer_text :: "pyval option"

definition unbound :: locals where
  "unbound = \<lparr>raw_answer = None, answer_text = None\<rparr>"

text \<open>
  Lines 148--191, the body of the \<^verbatim>\<open>try\<close>: the calls made, the locals as they are
  when the block is left, and how it is left.
\<close>

definition try_block ::
  "lib \<Rightarrow> llm_handle \<Rightarrow> emb_handle \<Rightarrow> request \<Rightarrow> event list \<times> locals \<times> completion" where
  "try_block L l e req =
     (case request_json req of
        Inl ex \<Rightarrow> ([], unbound, Raise ex)
      | Inr data \<Rightarrow>
     (case py_get data ''url'' PNone of
        Inl ex \<Rightarrow> ([], unbound, Raise ex)
      | Inr url \<Rightarrow>
     (case py_get data ''question'' PNone of
        Inl ex \<Rightarrow> ([], unbound, Raise ex)
      | Inr question \<Rightarrow>
     if \<not> truthy url \<or> \<not> truthy question
     then ([], unbound, Return (error_response 400 ''Missing 'url' or 'question' in request.''))
     else
     (case loader_load L url of
        Inl ex \<Rightarrow> ([Fetch url], unbound, Raise ex)
      | Inr docs \<Rightarrow>
     (case split_documents L 2000 200 docs of
        Inl ex \<Rightarrow> ([Fetch url, Chunk 2000 200], unbound, Raise ex)
      | Inr splits \<Rightarrow>
     (case from_documents L splits e of
        Inl ex \<Rightarrow> ([Fetch url, Chunk 2000 200, Embed], unbound, Raise ex)
      | Inr vs \<Rightarrow>
     (case from_chain_type L l ''stuff'' vs of
        Inl ex \<Rightarrow> ([Fetch url, Chunk 2000 200, Embed, BuildChain], unbound, Raise ex)
      | Inr chain \<Rightarrow>
     (let query = PDict [(''query'', question)];
          res = chain_invoke L chain query;
          tr = [Fetch url, Chunk 2000 200, Embed, BuildChain, Synthesize query res]
      in case res of
        Inl ex \<Rightarrow> (tr, unbound, Raise ex)
      | Inr raw \<Rightarrow>
     (case py_get raw ''result'' (PStr []) of
        Inl ex \<Rightarrow> (tr, \<lparr>raw_answer = Some raw, answer_text = None\<rparr>, Raise ex)
      | Inr text \<Rightarrow>
          (tr, \<lparr>raw_answer = Some raw, answer_text = Some text\<rparr>, Normal))))))))))"

text \<open>Lines 203--206: the raw chain output as a JSON object.\<close>

definition raw_clean :: "pyval \<Rightarrow> pyval" where
  "raw_clean raw = (if is_dict raw then raw else PDict [(''result'', PStr (py_str raw))])"

text \<open>Lines 217--222, the prompt of the reformatting call.\<close>

definition structured_prompt :: "pyval \<Rightarrow> string \<Rightarrow> string" where
  "structured_prompt text instructions =
     '' Reform the following into EXACT schema:''
       @ ''Answer:'' @ [CHR 0x0A] @ py_str text @ [CHR 0x0A, CHR 0x0A]
       @ ''Schema:'' @ [CHR 0x0A] @ instructions @ [CHR 0x0A, CHR 0x0A]"

definition success_response :: "string \<Rightarrow> pyval \<Rightarrow> pyval \<Rightarrow> response" where
  "success_response concise raw parsed =
     \<lparr>status = 200,
      body = [(''answer'', PStr concise), (''raw'', raw), (''structured'', parsed)]\<rparr>"

text \<open>
  Lines 216--268, the inner \<^verbatim>\<open>try\<close> with its \<^verbatim>\<open>except Exception\<close>: every
  exception raised inside, the unbound \<^verbatim>\<open>answer_text\<close> included, becomes a 500
  response carrying \<^verbatim>\<open>str(e)\<close>.
\<close>

definition reformat ::
  "lib \<Rightarrow> llm_handle \<Rightarrow> parser_handle \<Rightarrow> string \<Rightarrow> locals \<Rightarrow> pyval
     \<Rightarrow> event list \<times> response" where
  "reformat L l p instructions ls raw_cl =
     (case answer_text ls of
        None \<Rightarrow> ([], error_response 500 (exn_str (UnboundLocalError ''answer_text'')))
      | Some text \<Rightarrow>
     (let prompt = structured_prompt text instructions in
      case llm_invoke L l prompt of
        Inl ex \<Rightarrow> ([Reformat prompt], error_response 500 (exn_str ex))
      | Inr structured_result \<Rightarrow>
     (let structured_output =
            (case structured_result of Message c \<Rightarrow> c | Plain s \<Rightarrow> PStr s);
          res = parser_parse L p structured_output;
          tr = [Reformat prompt, Parse structured_output res]
      in case res of
        Inl ex \<Rightarrow> (tr, error_response 500 (exn_str ex))
      | Inr parsed \<Rightarrow>
          if \<not> (is_dict parsed \<or> is_list parsed)
          then (tr, error_response 500
                      ''StructuredOutputParser did not return structured data.'')
          else (tr, success_response (concise_of parsed) raw_cl parsed))))"

text \<open>
  Lines 192--268, the body of the \<^verbatim>\<open>finally\<close>. Everything after \<^verbatim>\<open>pass\<close> is
  indented under it, so it runs however the \<^verbatim>\<open>try\<close> was left, and its first
  statement reads \<^verbatim>\<open>raw_answer\<close>. The response of lines 210--212 has a name of
  its own.
\<close>

definition parser_unavailable :: response where
  "parser_unavailable =
     error_response 500
       (''StructuredOutputParser is not available on the server. ''
          @ ''Install a compatible LangChain variant.'')"

definition finally_block ::
  "globals \<Rightarrow> lib \<Rightarrow> llm_handle \<Rightarrow> locals \<Rightarrow> event list \<times> completion" where
  "finally_block G L l ls =
     (case raw_answer ls of
        None \<Rightarrow> ([], Raise (UnboundLocalError ''raw_answer''))
      | Some raw \<Rightarrow>
     (let raw_cl = raw_clean raw in
      case structured_parser G of
        None \<Rightarrow> ([], Return parser_unavailable)
      | Some p \<Rightarrow>
          (let (tr, resp) = reformat L l p (format_instructions G) ls raw_cl
           in (tr, Return resp))))"

text \<open>
  A \<^verbatim>\<open>return\<close> or an exception in the \<^verbatim>\<open>finally\<close> block replaces whatever the
  \<^verbatim>\<open>try\<close> block had pending; only when the \<^verbatim>\<open>finally\<close> block runs to its end does
  the pending return or exception take effect.
\<close>

definition after_finally :: "completion \<Rightarrow> completion \<Rightarrow> completion" where
  "after_finally pending fin = (case fin of Normal \<Rightarrow> pending | _ \<Rightarrow> fin)"

text \<open>Lines 137--268. The result is the calls made and how the function ends.\<close>

definition handle_query :: "globals \<Rightarrow> lib \<Rightarrow> request \<Rightarrow> event list \<times> completion" where
  "handle_query G L req =
     (case (llm G, embeddings G) of
        (Some l, Some e) \<Rightarrow>
          (let (tr1, ls, pending) = try_block L l e req;
               (tr2, fin) = finally_block G L l ls
           in (tr1 @ tr2, after_finally pending fin))
      | _ \<Rightarrow> ([], Return (error_response 500
                 ''AI models are not initialized. Check server logs.'')))"

section \<open>What the specification says, in its own words\<close>

text \<open>
  Section 4.4 of the specification ranks the fields of a mapping: \<^verbatim>\<open>answer\<close> ``if
  present and non-empty'', else \<^verbatim>\<open>summary\<close>, else \<^verbatim>\<open>title\<close>/\<^verbatim>\<open>heading\<close> with
  \<^verbatim>\<open>sections\<close>/\<^verbatim>\<open>bullets\<close>/\<^verbatim>\<open>body\<close>. A field is present and non-empty when
  the mapping has the key with a truthy value; of several alternative keys the first such
  one counts.
\<close>

definition nonempty_field :: "(string \<times> pyval) list \<Rightarrow> string \<Rightarrow> bool" where
  "nonempty_field kvs k = (case map_of kvs k of None \<Rightarrow> False | Some v \<Rightarrow> truthy v)"

definition first_nonempty :: "(string \<times> pyval) list \<Rightarrow> string list \<Rightarrow> pyval option" where
  "first_nonempty kvs keys =
     (case filter (nonempty_field kvs) keys of [] \<Rightarrow> None | k # ks \<Rightarrow> map_of kvs k)"

text \<open>Section 4.4 on parsing: ``accept a mapping or a sequence of mappings as valid
  top-level shapes; reject anything else''.\<close>

definition spec_valid_shape :: "pyval \<Rightarrow> bool" where
  "spec_valid_shape parsed =
     (case parsed of PDict kvs \<Rightarrow> True | PList xs \<Rightarrow> list_all is_dict xs | _ \<Rightarrow> False)"

section \<open>Concrete runs\<close>

text \<open>
  The end-to-end scenario of section 8 of the specification: a page with the text
  ``Cats are mammals. Dogs are mammals too.'', the question ``What are cats?'', and stub
  library calls. The parser's answer is left open so that one stub serves every shape.
\<close>

definition demo_llm :: llm_handle where
  "demo_llm = ChatModel ''gemini-2.5-flash-preview-09-2025''"

definition demo_embeddings :: emb_handle where
  "demo_embeddings = EmbeddingModel ''all-MiniLM-L6-v2''"

definition demo_globals :: globals where
  "demo_globals =
     \<lparr>llm = Some demo_llm, embeddings = Some demo_embeddings,
      structured_parser = Some (StructuredParser [''title'', ''sections'']),
      format_instructions = ''Return a JSON object with the keys title and sections.''\<rparr>"

definition no_parser_globals :: globals where
  "no_parser_globals = demo_globals\<lparr>structured_parser := None\<rparr>"

definition no_llm_globals :: globals where
  "no_llm_globals = demo_globals\<lparr>llm := None\<rparr>"

definition stub_chain_invoke :: "qa_chain \<Rightarrow> pyval \<Rightarrow> exn + pyval" where
  "stub_chain_invoke chain inp =
     (case inp of
        PDict kvs \<Rightarrow> Inr (PDict (kvs @ [(''result'', PStr ''Cats are mammals.'')]))
      | _ \<Rightarrow> Inl (Failure ''chain input must be a mapping''))"

definition stub_lib :: "(exn + pyval) \<Rightarrow> lib" where
  "stub_lib parsed =
     \<lparr>loader_load = (\<lambda>url. Inr [''Cats are mammals. Dogs are mammals too.'']),
      split_documents = (\<lambda>size overlap docs. Inr docs),
      from_documents = (\<lambda>splits e. Inr (VectorStore splits e)),
      from_chain_type = (\<lambda>l t vs. Inr (QAChain l t vs)),
      chain_invoke = stub_chain_invoke,
      llm_invoke = (\<lambda>l prompt. Inr (Message (PStr ''reformatted''))),
      parser_parse = (\<lambda>p out. parsed)\<rparr>"

text \<open>The same library when the page cannot be fetched.\<close>

definition offline_lib :: lib where
  "offline_lib =
     (stub_lib (Inl (Failure ''unused'')))
       \<lparr>loader_load := (\<lambda>url. Inl (Failure ''connection refused''))\<rparr>"

text \<open>The same library when the language model refuses the chain's call.\<close>

definition failing_chain_lib :: lib where
  "failing_chain_lib =
     (stub_lib (Inl (Failure ''unused'')))
       \<lparr>chain_invoke := (\<lambda>chain inp. Inl (Failure ''API key not valid''))\<rparr>"

definition demo_request :: request where
  "demo_request =
     \<lparr>request_json = Inr (PDict [(''url'', PStr ''http://example.org/cats''),
                                 (''question'', PStr ''What are cats?'')])\<rparr>"

definition no_url_request :: request where
  "no_url_request = \<lparr>request_json = Inr (PDict [(''question'', PStr ''What are cats?'')])\<rparr>"

definition demo_raw :: pyval where
  "demo_raw =
     PDict [(''query'', PStr ''What are cats?''), (''result'', PStr ''Cats are mammals.'')]"

definition demo_query :: pyval where
  "demo_query = PDict [(''query'', PStr ''What are cats?'')]"

definition demo_trace :: "event list" where
  "demo_trace =
     [Fetch (PStr ''http://example.org/cats''), Chunk 2000 200, Embed, BuildChain,
      Synthesize demo_query (Inr demo_raw)]"

definition demo_reformat_trace :: "pyval \<Rightarrow> event list" where
  "demo_reformat_trace parsed =
     [Reformat (structured_prompt (PStr ''Cats are mammals.'')
                  (format_instructions demo_globals)),
      Parse (PStr ''reformatted'') (Inr parsed)]"

text \<open>The calls that can be on record while \<^verbatim>\<open>raw_answer\<close> is still unbound:
  everything up to a chain invocation that raised.\<close>

definition pipeline_event :: "event \<Rightarrow> bool" where
  "pipeline_event ev =
     (case ev of
        Synthesize q (Inr raw) \<Rightarrow> False
      | Reformat p \<Rightarrow> False
      | Parse s r \<Rightarrow> False
      | _ \<Rightarrow> True)"

section \<open>How a request can end\<close>

lemma py_get_Inr_dict: "py_get obj k d = Inr v \<Longrightarrow> is_dict obj"
  by (cases obj) (simp_all add: py_get_def)

lemma py_get_Inl_not_dict: "py_get obj k d = Inl ex \<Longrightarrow> \<not> is_dict obj"
  by (cases obj) (simp_all add: py_get_def)

lemma raw_clean_dict: "is_dict raw \<Longrightarrow> raw_clean raw = raw"
  by (simp add: raw_clean_def)

lemma no_synthesize_before:
  "list_all pipeline_event tr \<Longrightarrow> Synthesize q (Inr raw) \<in> set tr \<Longrightarrow> False"
  by (auto simp: list_all_iff pipeline_event_def)

lemma no_parse_before: "list_all pipeline_event tr \<Longrightarrow> Parse so r \<in> set tr \<Longrightarrow> False"
  by (auto simp: list_all_iff pipeline_event_def)

text \<open>
  The \<^verbatim>\<open>try\<close> block is left in one of two ways: before the chain has answered, with
  both locals unbound and a return or an exception pending; or after it, with
  \<^verbatim>\<open>raw_answer\<close> bound, and \<^verbatim>\<open>answer_text\<close> bound exactly when the raw answer is a
  dictionary.
\<close>

lemma try_block_cases:
  assumes "try_block L l e req = (tr, ls, pending)"
  shows "(ls = unbound \<and> pending \<noteq> Normal \<and> list_all pipeline_event tr)
       \<or> (\<exists>url q raw. tr = [Fetch url, Chunk 2000 200, Embed, BuildChain, Synthesize q (Inr raw)]
            \<and> raw_answer ls = Some raw
            \<and> ((\<exists>ex. pending = Raise ex \<and> answer_text ls = None \<and> \<not> is_dict raw)
               \<or> (pending = Normal \<and> is_dict raw \<and> (\<exists>t. answer_text ls = Some t))))"
  using assms unfolding try_block_def Let_def
  by (auto simp: pipeline_event_def split: sum.splits if_splits
        dest: py_get_Inr_dict py_get_Inl_not_dict)

text \<open>The reformatting stage answers with a 500 error, or with the success envelope when
  the parser returned a dictionary or a list.\<close>

lemma reformat_cases:
  assumes "reformat L l p ins ls rc = (tr, resp)"
  shows "(\<exists>msg. resp = error_response 500 msg
            \<and> (\<forall>so parsed. Parse so (Inr parsed) \<in> set tr \<longrightarrow>
                  \<not> (is_dict parsed \<or> is_list parsed)
                  \<and> msg = ''StructuredOutputParser did not return structured data.'')
            \<and> (\<forall>q r. Synthesize q r \<notin> set tr))
       \<or> (\<exists>prompt so parsed. tr = [Reformat prompt, Parse so (Inr parsed)]
             \<and> (is_dict parsed \<or> is_list parsed) \<and> answer_text ls \<noteq> None
             \<and> resp = success_response (concise_of parsed) rc parsed)"
  using assms unfolding reformat_def Let_def
  by (auto split: sum.splits if_splits option.splits llm_result.splits)

text \<open>The four ways \<^const>\<open>handle_query\<close> ends.\<close>

lemma handle_query_cases:
  assumes "handle_query G L req = (tr, out)"
  shows "((llm G = None \<or> embeddings G = None) \<and> tr = []
            \<and> out = Return (error_response 500
                      ''AI models are not initialized. Check server logs.''))
       \<or> (llm G \<noteq> None \<and> embeddings G \<noteq> None \<and> list_all pipeline_event tr
            \<and> out = Raise (UnboundLocalError ''raw_answer''))
       \<or> (\<exists>url q raw. tr = [Fetch url, Chunk 2000 200, Embed, BuildChain, Synthesize q (Inr raw)]
            \<and> structured_parser G = None \<and> out = Return parser_unavailable)
       \<or> (\<exists>url q raw tr2 resp.
             tr = [Fetch url, Chunk 2000 200, Embed, BuildChain, Synthesize q (Inr raw)] @ tr2
            \<and> structured_parser G \<noteq> None \<and> out = Return resp
            \<and> ((\<exists>msg. resp = error_response 500 msg
                   \<and> (\<forall>so parsed. Parse so (Inr parsed) \<in> set tr2 \<longrightarrow>
                         \<not> (is_dict parsed \<or> is_list parsed)
                         \<and> msg = ''StructuredOutputParser did not return structured data.'')
                   \<and> (\<forall>q r. Synthesize q r \<notin> set tr2))
               \<or> (\<exists>prompt so parsed. tr2 = [Reformat prompt, Parse so (Inr parsed)]
                     \<and> (is_dict parsed \<or> is_list parsed) \<and> is_dict raw
                     \<and> resp = success_response (concise_of parsed) raw parsed)))"
proof (cases "llm G")
  case None
  with assms show ?thesis by (auto simp: handle_query_def)
next
  case (Some l)
  note l = this
  show ?thesis
  proof (cases "embeddings G")
    case None
    with assms l show ?thesis by (auto simp: handle_query_def)
  next
    case (Some e)
    note e = this
    obtain tr1 ls pending where tb: "try_block L l e req = (tr1, ls, pending)"
      by (cases "try_block L l e req") auto
    obtain tr2 fin where fb: "finally_block G L l ls = (tr2, fin)"
      by (cases "finally_block G L l ls") auto
    from assms l e tb fb have tr: "tr = tr1 @ tr2" and out: "out = after_finally pending fin"
      by (auto simp: handle_query_def)
    from try_block_cases [OF tb] consider
        (early) "ls = unbound" "list_all pipeline_event tr1"
      | (bound) url q raw where
          "tr1 = [Fetch url, Chunk 2000 200, Embed, BuildChain, Synthesize q (Inr raw)]"
          "raw_answer ls = Some raw"
          "(\<exists>ex. pending = Raise ex \<and> answer_text ls = None \<and> \<not> is_dict raw) \<or>
           pending = Normal \<and> is_dict raw \<and> (\<exists>t. answer_text ls = Some t)"
      by blast
    then show ?thesis
    proof cases
      case early
      with fb have "tr2 = []" "fin = Raise (UnboundLocalError ''raw_answer'')"
        by (auto simp: finally_block_def unbound_def)
      with tr out early l e show ?thesis by (simp add: after_finally_def)
    next
      case (bound url q raw)
      note tr1 = bound(1) and ra = bound(2) and alt = bound(3)
      show ?thesis
      proof (cases "structured_parser G")
        case None
        with fb ra have "tr2 = []" "fin = Return parser_unavailable"
          by (auto simp: finally_block_def)
        with tr out tr1 None show ?thesis by (simp add: after_finally_def)
      next
        case (Some p)
        obtain tr3 resp
          where rf: "reformat L l p (format_instructions G) ls (raw_clean raw) = (tr3, resp)"
          by (cases "reformat L l p (format_instructions G) ls (raw_clean raw)") auto
        with fb ra Some have f2: "tr2 = tr3" "fin = Return resp"
          by (auto simp: finally_block_def)
        from alt have at: "answer_text ls \<noteq> None \<Longrightarrow> raw_clean raw = raw"
          by (auto simp: raw_clean_dict)
        from alt have at2: "answer_text ls \<noteq> None \<Longrightarrow> is_dict raw"
          by auto
        from reformat_cases [OF rf] at at2 tr out tr1 Some f2 show ?thesis
          by (auto simp: after_finally_def)
      qed
    qed
  qed
qed

lemma accepted_after_parse:
  assumes "handle_query G L req = (tr, out)"
    and "Parse so (Inr parsed) \<in> set tr"
    and "is_dict parsed \<or> is_list parsed"
  shows "\<exists>raw. is_dict raw \<and> out = Return (success_response (concise_of parsed) raw parsed)"
  using handle_query_cases [OF assms(1)] assms(2,3)
  by (auto dest: no_parse_before)

subsection \<open>The summary\<close>

lemma dict_get_map_of: "dict_get kvs k = (case map_of kvs k of None \<Rightarrow> PNone | Some v \<Rightarrow> v)"
  by (simp add: dict_get_def dict_get_default_def)

lemma nonempty_field_truthy: "nonempty_field kvs k = truthy (dict_get kvs k)"
  by (simp add: nonempty_field_def dict_get_map_of split: option.splits)

lemma dict_in_and_truthy: "(dict_in kvs k \<and> truthy (dict_get kvs k)) = nonempty_field kvs k"
  by (auto simp: nonempty_field_def dict_in_def dict_get_map_of split: option.splits)

lemma nonempty_field_map_of: "nonempty_field kvs k \<Longrightarrow> map_of kvs k = Some (dict_get kvs k)"
  by (auto simp: nonempty_field_def dict_get_map_of split: option.splits)

lemma first_nonempty_1:
  "first_nonempty kvs [a] = (if nonempty_field kvs a then Some (dict_get kvs a) else None)"
  by (simp add: first_nonempty_def nonempty_field_map_of)

lemma first_nonempty_2:
  "first_nonempty kvs [a, b] =
     (if truthy (py_or (dict_get kvs a) (dict_get kvs b))
      then Some (py_or (dict_get kvs a) (dict_get kvs b)) else None)"
  by (simp add: first_nonempty_def nonempty_field_map_of py_or_def
        nonempty_field_truthy [symmetric])

lemma first_nonempty_3:
  "first_nonempty kvs [a, b, c] =
     (if truthy (py_or (py_or (dict_get kvs a) (dict_get kvs b)) (dict_get kvs c))
      then Some (py_or (py_or (dict_get kvs a) (dict_get kvs b)) (dict_get kvs c)) else None)"
  by (simp add: first_nonempty_def nonempty_field_map_of py_or_def
        nonempty_field_truthy [symmetric])

lemma serialize_value_fun:
  "serialize_value = (\<lambda>v. if is_list v \<or> is_dict v then json_dumps v else py_str v)"
  by (rule ext) (simp add: serialize_value_def)

text \<open>What \<^const>\<open>py_strip\<close> removes is white space at the two ends, and what it
  leaves neither starts nor ends with white space.\<close>

lemma py_strip_decomp:
  "\<exists>pre post. s = pre @ py_strip s @ post \<and> list_all is_space pre \<and> list_all is_space post"
proof -
  let ?d = "dropWhile is_space s"
  have 1: "s = takeWhile is_space s @ ?d" by simp
  have "takeWhile is_space (rev ?d) @ dropWhile is_space (rev ?d) = rev ?d"
    by (rule takeWhile_dropWhile_id)
  then have "rev (takeWhile is_space (rev ?d) @ dropWhile is_space (rev ?d)) = rev (rev ?d)"
    by (rule arg_cong)
  then have 2: "?d = py_strip s @ rev (takeWhile is_space (rev ?d))"
    by (simp only: rev_append rev_rev_ident py_strip_def)
  have 3: "list_all is_space (takeWhile is_space s)"
    by (auto simp: list_all_iff dest: set_takeWhileD)
  have 4: "list_all is_space (rev (takeWhile is_space (rev ?d)))"
    by (auto simp: list_all_iff dest: set_takeWhileD)
  from 1 2 have "s = takeWhile is_space s @ py_strip s @ rev (takeWhile is_space (rev ?d))"
    by simp
  with 3 4 show ?thesis by blast
qed

lemma last_dropWhile: "dropWhile P xs \<noteq> [] \<Longrightarrow> last (dropWhile P xs) = last xs"
  by (induction xs) (auto split: if_splits)

lemma py_strip_ends:
  assumes "py_strip s \<noteq> []"
  shows "\<not> is_space (hd (py_strip s)) \<and> \<not> is_space (last (py_strip s))"
proof -
  let ?d = "dropWhile is_space s"
  let ?e = "dropWhile is_space (rev ?d)"
  from assms have e: "?e \<noteq> []" by (simp add: py_strip_def)
  have d: "?d \<noteq> []"
  proof
    assume "?d = []"
    then have "?e = []" by (simp only: rev.simps(1) dropWhile.simps(1))
    with e show False by contradiction
  qed
  have "last (py_strip s) = hd ?e" using e by (simp add: py_strip_def last_rev)
  moreover have "\<not> is_space (hd ?e)" using e by (rule hd_dropWhile)
  moreover have "hd (py_strip s) = last ?e" using e by (simp add: py_strip_def hd_rev)
  moreover have "last ?e = last (rev ?d)" using e by (rule last_dropWhile)
  moreover have "last (rev ?d) = hd ?d" using d by (simp add: last_rev)
  moreover have "\<not> is_space (hd ?d)" using d by (rule hd_dropWhile)
  ultimately show ?thesis by simp
qed

lemma falsy_values_get:
  "list_all (\<lambda>v. \<not> truthy v) (map snd kvs) \<Longrightarrow> \<not> truthy (dict_get kvs k)"
  by (auto simp: dict_get_map_of list_all_iff split: option.splits dest!: map_of_SomeD)

lemma falsy_values_filter: "list_all (\<lambda>v. \<not> truthy v) vs \<Longrightarrow> filter truthy vs = []"
  by (induction vs) auto

lemma concise_of_all_falsy:
  "list_all (\<lambda>v. \<not> truthy v) (map snd kvs) \<Longrightarrow> concise_of (PDict kvs) = []"
  by (simp add: concise_of_def concise_from_structured_def falsy_values_get
        falsy_values_filter py_or_def Let_def)

lemma concise_of_empty_list: "concise_of (PList []) = []"
  by (simp add: concise_of_def concise_from_structured_def)

subsection \<open>The concrete runs, evaluated\<close>

lemmas demo_defs = demo_globals_def no_parser_globals_def no_llm_globals_def stub_lib_def
  offline_lib_def demo_request_def no_url_request_def demo_trace_def demo_llm_def
  demo_embeddings_def stub_chain_invoke_def demo_raw_def demo_query_def
  demo_reformat_trace_def failing_chain_lib_def

lemmas handler_defs = handle_query_def try_block_def finally_block_def reformat_def
  after_finally_def py_get_def dict_get_default_def unbound_def Let_def

lemma demo_run:
  "is_dict parsed \<or> is_list parsed \<Longrightarrow>
   handle_query demo_globals (stub_lib (Inr parsed)) demo_request =
     (demo_trace @ demo_reformat_trace parsed,
      Return (success_response (concise_of parsed) demo_raw parsed))"
  by (simp add: demo_defs handler_defs raw_clean_def)

lemma demo_run_rejected:
  "\<not> (is_dict parsed \<or> is_list parsed) \<Longrightarrow>
   handle_query demo_globals (stub_lib (Inr parsed)) demo_request =
     (demo_trace @ demo_reformat_trace parsed,
      Return (error_response 500 ''StructuredOutputParser did not return structured data.''))"
  by (simp add: demo_defs handler_defs raw_clean_def)

lemma no_parser_run:
  "handle_query no_parser_globals (stub_lib r) demo_request
     = (demo_trace, Return parser_unavailable)"
  by (simp add: demo_defs handler_defs raw_clean_def)

lemma offline_try:
  "try_block offline_lib demo_llm demo_embeddings demo_request
     = ([Fetch (PStr ''http://example.org/cats'')], unbound,
        Raise (Failure ''connection refused''))"
  by (simp add: demo_defs handler_defs)

lemma no_url_try:
  "try_block (stub_lib r) demo_llm demo_embeddings no_url_request
     = ([], unbound, Return (error_response 400 ''Missing 'url' or 'question' in request.''))"
  by (simp add: demo_defs handler_defs)

lemma no_url_run:
  "handle_query demo_globals (stub_lib r) no_url_request
     = ([], Raise (UnboundLocalError ''raw_answer''))"
  by (simp add: demo_defs handler_defs)

lemma failing_chain_run:
  "handle_query demo_globals failing_chain_lib demo_request
     = ([Fetch (PStr ''http://example.org/cats''), Chunk 2000 200, Embed, BuildChain,
         Synthesize demo_query (Inl (Failure ''API key not valid''))],
        Raise (UnboundLocalError ''raw_answer''))"
  by (simp add: demo_defs handler_defs)

lemma parse_in_demo_trace:
  "Parse (PStr ''reformatted'') (Inr parsed) \<in> set (demo_trace @ demo_reformat_trace parsed)"
  by (simp add: demo_reformat_trace_def)

section \<open>The claims\<close>

subsection \<open>C1: a missing structured parser\<close>

text \<open>
  C1 says that a request received while \<^verbatim>\<open>structured_parser\<close> is uninitialised
  fails with a configuration error before any fetch, chunking or embedding work. On the
  demonstration request, with the parser missing and both models present, the handler
  answers with the configuration error only after it has fetched, chunked, embedded, built
  the chain and invoked it: the calls on record are not empty.
\<close>

theorem parser_check_follows_pipeline_counterexample:
  "structured_parser no_parser_globals = None
   \<and> handle_query no_parser_globals (stub_lib (Inr (PDict []))) demo_request
       = ([Fetch (PStr ''http://example.org/cats''), Chunk 2000 200, Embed, BuildChain,
           Synthesize demo_query (Inr demo_raw)],
          Return parser_unavailable)
   \<and> fst (handle_query no_parser_globals (stub_lib (Inr (PDict []))) demo_request) \<noteq> []"
  by (simp add: no_parser_run) (simp add: no_parser_globals_def demo_trace_def)

text \<open>
  C1, amended: for every request received while \<^verbatim>\<open>structured_parser\<close> is
  uninitialised and for which the retrieval chain returned its raw answer, the handler
  answers with status 500 and the parser-unavailable configuration error; by then the
  document fetch, the chunking, the embedding, the chain construction and the chain
  invocation have all been made, and nothing else.
\<close>

theorem parser_unavailable_after_pipeline:
  assumes "structured_parser G = None"
    and "handle_query G L req = (tr, out)"
    and "Synthesize q (Inr raw) \<in> set tr"
  shows "out = Return parser_unavailable \<and> status parser_unavailable = 500
         \<and> (\<exists>url. tr = [Fetch url, Chunk 2000 200, Embed, BuildChain, Synthesize q (Inr raw)])"
  using handle_query_cases [OF assms(2)] assms(1,3)
  by (auto dest: no_synthesize_before simp: parser_unavailable_def error_response_def)

theorem parser_unavailable_after_pipeline_witness:
  "structured_parser no_parser_globals = None
   \<and> handle_query no_parser_globals (stub_lib (Inr (PDict []))) demo_request
       = (demo_trace, Return parser_unavailable)
   \<and> Synthesize demo_query (Inr demo_raw) \<in> set demo_trace
   \<and> status parser_unavailable = 500
   \<and> (\<exists>url. demo_trace
         = [Fetch url, Chunk 2000 200, Embed, BuildChain, Synthesize demo_query (Inr demo_raw)])"
proof -
  have a: "structured_parser no_parser_globals = None"
    by (simp add: no_parser_globals_def)
  have b: "handle_query no_parser_globals (stub_lib (Inr (PDict []))) demo_request
       = (demo_trace, Return parser_unavailable)"
    by (rule no_parser_run)
  have c: "Synthesize demo_query (Inr demo_raw) \<in> set demo_trace"
    by (simp add: demo_trace_def)
  from parser_unavailable_after_pipeline [OF a b c] a b c show ?thesis by simp
qed

subsection \<open>C2: leaving the \<^verbatim>\<open>try\<close> block before \<^verbatim>\<open>raw_answer\<close> is assigned\<close>

text \<open>
  C2: whenever the \<^verbatim>\<open>try\<close> block of \<^verbatim>\<open>handle_query\<close> is left before
  \<^verbatim>\<open>raw_answer\<close> is assigned (by the early return for a missing \<^verbatim>\<open>url\<close> or
  \<^verbatim>\<open>question\<close>, or by an exception raised before the chain invocation has returned),
  the \<^verbatim>\<open>finally\<close> block still runs, reads the unbound name, and the handler ends
  with an \<^verbatim>\<open>UnboundLocalError\<close>, a \<^verbatim>\<open>NameError\<close>, instead of a response.
\<close>

theorem unbound_raw_answer_raises:
  assumes "llm G = Some l" and "embeddings G = Some e"
    and "try_block L l e req = (tr, ls, pending)"
    and "raw_answer ls = None
           \<or> (\<exists>r. pending = Return r)
           \<or> (\<exists>ex. pending = Raise ex \<and> (\<forall>q raw. Synthesize q (Inr raw) \<notin> set tr))"
  shows "raw_answer ls = None
           \<and> handle_query G L req = (tr, Raise (UnboundLocalError ''raw_answer''))
           \<and> is_NameError (UnboundLocalError ''raw_answer'')"
proof -
  from try_block_cases [OF assms(3)] assms(4) have "ls = unbound"
    by auto
  then have "raw_answer ls = None"
    and "finally_block G L l ls = ([], Raise (UnboundLocalError ''raw_answer''))"
    by (simp_all add: unbound_def finally_block_def)
  with assms(1-3) show ?thesis
    by (simp add: handle_query_def after_finally_def)
qed

text \<open>The page cannot be fetched: the loader's exception is replaced by the
  \<^verbatim>\<open>UnboundLocalError\<close>.\<close>

theorem unbound_raw_answer_raises_witness:
  "llm demo_globals = Some demo_llm \<and> embeddings demo_globals = Some demo_embeddings
     \<and> try_block offline_lib demo_llm demo_embeddings demo_request
         = ([Fetch (PStr ''http://example.org/cats'')], unbound,
            Raise (Failure ''connection refused''))
     \<and> handle_query demo_globals offline_lib demo_request
         = ([Fetch (PStr ''http://example.org/cats'')],
            Raise (UnboundLocalError ''raw_answer''))"
proof -
  have g: "llm demo_globals = Some demo_llm" "embeddings demo_globals = Some demo_embeddings"
    by (simp_all add: demo_globals_def)
  have t: "try_block offline_lib demo_llm demo_embeddings demo_request
         = ([Fetch (PStr ''http://example.org/cats'')], unbound,
            Raise (Failure ''connection refused''))"
    by (rule offline_try)
  have h: "raw_answer unbound = None
           \<or> (\<exists>r. Raise (Failure ''connection refused'') = Return r)
           \<or> (\<exists>ex. Raise (Failure ''connection refused'') = Raise ex
                  \<and> (\<forall>q raw. Synthesize q (Inr raw)
                               \<notin> set [Fetch (PStr ''http://example.org/cats'')]))"
    by (simp add: unbound_def)
  from unbound_raw_answer_raises [OF g t h] g t show ?thesis by simp
qed

subsection \<open>C3: a request without \<^verbatim>\<open>url\<close> or \<^verbatim>\<open>question\<close>\<close>

text \<open>
  For the body \<^verbatim>\<open>{"question": "What are cats?"}\<close> the \<^verbatim>\<open>try\<close> block chooses
  the 400 response of line 154 and makes no library call.
\<close>

lemma missing_url_pending_400:
  "try_block (stub_lib (Inr (PDict []))) demo_llm demo_embeddings no_url_request
     = ([], unbound,
        Return \<lparr>status = 400,
                body = [(''error'', PStr ''Missing 'url' or 'question' in request.'')]\<rparr>)"
  by (simp add: no_url_try error_response_def)

text \<open>
  C3 says that a request whose body lacks \<^verbatim>\<open>url\<close> or \<^verbatim>\<open>question\<close> gets a 400
  response and never a crash. For the body above, with both models and the parser
  initialised, the handler does not return the 400 response it had pending: it ends with
  the \<^verbatim>\<open>UnboundLocalError\<close> of the \<^verbatim>\<open>finally\<close> block.
\<close>

theorem missing_url_crashes:
  "handle_query demo_globals (stub_lib (Inr (PDict []))) no_url_request
     = ([], Raise (UnboundLocalError ''raw_answer''))"
  by (rule no_url_run)

subsection \<open>C4: the concise summary\<close>

text \<open>
  C4 says that the concise summary is the field \<^verbatim>\<open>answer\<close> if present and non-empty,
  else \<^verbatim>\<open>summary\<close>, and so on. For the mapping
  \<^verbatim>\<open>{"answer": " ", "summary": "S"}\<close> the field \<^verbatim>\<open>answer\<close> is present and
  non-empty, yet the summary is the empty string: neither the answer field nor the
  summary field. Lines 241 and 243 strip the text they return.
\<close>

theorem blank_answer_counterexample:
  "map_of [(''answer'', PStr '' ''), (''summary'', PStr ''S'')] ''answer'' = Some (PStr '' '')
   \<and> truthy (PStr '' '')
   \<and> concise_of (PDict [(''answer'', PStr '' ''), (''summary'', PStr ''S'')]) = []
   \<and> concise_of (PDict [(''answer'', PStr '' ''), (''summary'', PStr ''S'')]) \<noteq> '' ''
   \<and> concise_of (PDict [(''answer'', PStr '' ''), (''summary'', PStr ''S'')]) \<noteq> ''S''"
  by (simp add: concise_of_def concise_from_structured_def dict_in_def dict_get_def
        dict_get_default_def py_strip_def is_space_def)

text \<open>
  C4, amended: for every parsed structured result the concise summary is derived by
  priority. It is the text of the field \<^verbatim>\<open>answer\<close> with the white space at its ends
  removed, if that field is present and non-empty; else the text of \<^verbatim>\<open>summary\<close>,
  stripped likewise; else, when \<^verbatim>\<open>title\<close>/\<^verbatim>\<open>heading\<close> and
  \<^verbatim>\<open>sections\<close>/\<^verbatim>\<open>bullets\<close>/\<^verbatim>\<open>body\<close> both have a non-empty value, the title,
  a colon and a space, and the first element of the sections value when that is a list
  (the value whole otherwise); else the non-empty field values joined by single spaces,
  lists and mappings as JSON, cut at 2000; for a sequence the first five non-empty
  elements joined by single spaces. The three examples of the specification come out as
  stated; so do a padded answer, a mapping with nested values, a value longer than 2000
  and a sequence with empty elements.
\<close>

theorem concise_summary_tiers:
  "(nonempty_field kvs ''answer'' \<longrightarrow>
      (\<exists>a. map_of kvs ''answer'' = Some a
           \<and> concise_of (PDict kvs) = py_strip (py_str a)))
   \<and> (\<not> nonempty_field kvs ''answer'' \<and> nonempty_field kvs ''summary'' \<longrightarrow>
      (\<exists>s. map_of kvs ''summary'' = Some s
           \<and> concise_of (PDict kvs) = py_strip (py_str s)))
   \<and> (\<not> nonempty_field kvs ''answer'' \<and> \<not> nonempty_field kvs ''summary''
        \<and> first_nonempty kvs [''title'', ''heading''] = Some t
        \<and> first_nonempty kvs [''sections'', ''bullets'', ''body''] = Some s \<longrightarrow>
      concise_of (PDict kvs)
        = py_str t @ '': '' @ py_str (case s of PList (x # rest) \<Rightarrow> x | _ \<Rightarrow> s))
   \<and> (\<not> nonempty_field kvs ''answer'' \<and> \<not> nonempty_field kvs ''summary''
        \<and> (first_nonempty kvs [''title'', ''heading''] = None
             \<or> first_nonempty kvs [''sections'', ''bullets'', ''body''] = None) \<longrightarrow>
      concise_of (PDict kvs)
        = take 2000 (join '' ''
            (map (\<lambda>v. if is_list v \<or> is_dict v then json_dumps v else py_str v)
               (filter truthy (map snd kvs))))
      \<and> length (concise_of (PDict kvs)) \<le> 2000)
   \<and> concise_of (PList xs) = join '' '' (map py_str (take 5 (filter truthy xs)))
   \<and> (\<exists>pre post. u = pre @ py_strip u @ post \<and> list_all is_space pre \<and> list_all is_space post)
   \<and> (py_strip u \<noteq> [] \<longrightarrow> \<not> is_space (hd (py_strip u)) \<and> \<not> is_space (last (py_strip u)))
   \<and> py_str (PStr u) = u
   \<and> concise_of (PDict [(''answer'', PStr ''Paris is the capital.'')]) = ''Paris is the capital.''
   \<and> concise_of (PDict [(''title'', PStr ''Overview''),
                         (''sections'', PList [PStr ''Intro'', PStr ''Details''])])
        = ''Overview: Intro''
   \<and> concise_of (PList [PStr ''a'', PStr ''b'', PStr ''c'', PStr ''d'', PStr ''e'', PStr ''f''])
        = ''a b c d e''
   \<and> concise_of (PDict [(''answer'', PStr [CHR 0x09, CHR '' '', CHR ''P'', CHR ''a'', CHR ''r'',
                                            CHR ''i'', CHR ''s'', CHR ''.'', CHR '' '', CHR 0x0A])])
        = ''Paris.''
   \<and> concise_of (PDict [(''title'', PStr ''Overview''),
                         (''items'', PList [PStr ''a'', PInt 1, PNone,
                                            PDict [(''k'', PBool True)]]),
                         (''note'', PStr []),
                         (''count'', PInt 12)])
        = ''Overview '' @ [CHR ''['', CHR 0x22, CHR ''a'', CHR 0x22] @ '', 1, null, {''
            @ [CHR 0x22, CHR ''k'', CHR 0x22] @ '': true}] 12''
   \<and> concise_of (PDict [(''text'', PStr (replicate 2500 (CHR ''x'')))])
        = replicate 2000 (CHR ''x'')
   \<and> concise_of (PList [PStr ''a'', PStr [], PNone, PInt 7, PList []]) = ''a 7''"
proof (intro conjI impI)
  assume "nonempty_field kvs ''answer''"
  then show "\<exists>a. map_of kvs ''answer'' = Some a
           \<and> concise_of (PDict kvs) = py_strip (py_str a)"
    by (simp add: concise_of_def concise_from_structured_def dict_in_and_truthy
          nonempty_field_map_of)
next
  assume "\<not> nonempty_field kvs ''answer'' \<and> nonempty_field kvs ''summary''"
  then show "\<exists>s. map_of kvs ''summary'' = Some s
           \<and> concise_of (PDict kvs) = py_strip (py_str s)"
    by (simp add: concise_of_def concise_from_structured_def dict_in_and_truthy
          nonempty_field_map_of)
next
  assume a: "\<not> nonempty_field kvs ''answer'' \<and> \<not> nonempty_field kvs ''summary''
        \<and> first_nonempty kvs [''title'', ''heading''] = Some t
        \<and> first_nonempty kvs [''sections'', ''bullets'', ''body''] = Some s"
  then have "truthy s" by (auto simp: first_nonempty_3 split: if_splits)
  with a show "concise_of (PDict kvs)
        = py_str t @ '': '' @ py_str (case s of PList (x # rest) \<Rightarrow> x | _ \<Rightarrow> s)"
    by (auto simp: concise_of_def concise_from_structured_def dict_in_and_truthy
          first_nonempty_2 first_nonempty_3 first_of_def Let_def split: if_splits)
next
  assume a: "\<not> nonempty_field kvs ''answer'' \<and> \<not> nonempty_field kvs ''summary''
        \<and> (first_nonempty kvs [''title'', ''heading''] = None
             \<or> first_nonempty kvs [''sections'', ''bullets'', ''body''] = None)"
  then show c: "concise_of (PDict kvs)
        = take 2000 (join '' ''
            (map (\<lambda>v. if is_list v \<or> is_dict v then json_dumps v else py_str v)
               (filter truthy (map snd kvs))))"
    by (auto simp: concise_of_def concise_from_structured_def dict_in_and_truthy
          first_nonempty_2 first_nonempty_3 serialize_value_fun Let_def split: if_splits)
  show "length (concise_of (PDict kvs)) \<le> 2000"
    unfolding c by simp
next
  show "concise_of (PList xs) = join '' '' (map py_str (take 5 (filter truthy xs)))"
    by (simp add: concise_of_def concise_from_structured_def take_map)
next
  show "\<exists>pre post. u = pre @ py_strip u @ post \<and> list_all is_space pre \<and> list_all is_space post"
    by (rule py_strip_decomp)
next
  assume "py_strip u \<noteq> []"
  then show "\<not> is_space (hd (py_strip u))" by (simp add: py_strip_ends)
next
  assume "py_strip u \<noteq> []"
  then show "\<not> is_space (last (py_strip u))" by (simp add: py_strip_ends)
next
  show "py_str (PStr u) = u" by simp
next
  show "concise_of (PDict [(''answer'', PStr ''Paris is the capital.'')])
          = ''Paris is the capital.''"
    by (simp add: concise_of_def concise_from_structured_def dict_in_def dict_get_def
          dict_get_default_def py_strip_def is_space_def)
next
  show "concise_of (PDict [(''title'', PStr ''Overview''),
                         (''sections'', PList [PStr ''Intro'', PStr ''Details''])])
        = ''Overview: Intro''"
    by (simp add: concise_of_def concise_from_structured_def dict_in_def dict_get_def
          dict_get_default_def py_or_def first_of_def)
next
  show "concise_of (PList [PStr ''a'', PStr ''b'', PStr ''c'', PStr ''d'', PStr ''e'', PStr ''f''])
        = ''a b c d e''"
    by (simp add: concise_of_def concise_from_structured_def)
next
  show "concise_of (PDict [(''answer'', PStr [CHR 0x09, CHR '' '', CHR ''P'', CHR ''a'', CHR ''r'',
                                            CHR ''i'', CHR ''s'', CHR ''.'', CHR '' '', CHR 0x0A])])
        = ''Paris.''"
    by (simp add: concise_of_def concise_from_structured_def dict_in_def dict_get_def
          dict_get_default_def py_strip_def is_space_def)
next
  show "concise_of (PDict [(''title'', PStr ''Overview''),
                         (''items'', PList [PStr ''a'', PInt 1, PNone,
                                            PDict [(''k'', PBool True)]]),
                         (''note'', PStr []),
                         (''count'', PInt 12)])
        = ''Overview '' @ [CHR ''['', CHR 0x22, CHR ''a'', CHR 0x22] @ '', 1, null, {''
            @ [CHR 0x22, CHR ''k'', CHR 0x22] @ '': true}] 12''"
    by (simp add: concise_of_def concise_from_structured_def dict_in_def dict_get_def
          dict_get_default_def py_or_def serialize_value_def json_str_def json_char_def
          str_int_def hex_digit_def)
next
  show "concise_of (PDict [(''text'', PStr (replicate 2500 (CHR ''x'')))])
        = replicate 2000 (CHR ''x'')"
    by (simp add: concise_of_def concise_from_structured_def dict_in_def dict_get_def
          dict_get_default_def py_or_def serialize_value_def)
next
  show "concise_of (PList [PStr ''a'', PStr [], PNone, PInt 7, PList []]) = ''a 7''"
    by (simp add: concise_of_def concise_from_structured_def str_int_def hex_digit_def)
qed

text \<open>One mapping for each of the four tiers.\<close>

theorem concise_summary_tiers_witness:
  "concise_of (PDict [(''answer'', PStr '' Cats purr. '')]) = ''Cats purr.''
   \<and> concise_of (PDict [(''answer'', PStr []), (''summary'', PStr '' S '')]) = ''S''
   \<and> concise_of (PDict [(''heading'', PStr ''H''), (''body'', PStr ''whole text'')])
        = ''H: whole text''
   \<and> concise_of (PDict [(''title'', PStr ''T''), (''count'', PInt 3)]) = ''T 3''"
proof (intro conjI)
  show "concise_of (PDict [(''answer'', PStr '' Cats purr. '')]) = ''Cats purr.''"
    using concise_summary_tiers [where kvs = "[(''answer'', PStr '' Cats purr. '')]",
            THEN conjunct1]
    by (simp add: nonempty_field_def py_strip_def is_space_def)
next
  show "concise_of (PDict [(''answer'', PStr []), (''summary'', PStr '' S '')]) = ''S''"
    using concise_summary_tiers
            [where kvs = "[(''answer'', PStr []), (''summary'', PStr '' S '')]",
             THEN conjunct2, THEN conjunct1]
    by (simp add: nonempty_field_def py_strip_def is_space_def)
next
  show "concise_of (PDict [(''heading'', PStr ''H''), (''body'', PStr ''whole text'')])
        = ''H: whole text''"
    using concise_summary_tiers
            [where kvs = "[(''heading'', PStr ''H''), (''body'', PStr ''whole text'')]"
               and t = "PStr ''H''" and s = "PStr ''whole text''",
             THEN conjunct2, THEN conjunct2, THEN conjunct1]
    by (simp add: nonempty_field_def first_nonempty_def)
next
  show "concise_of (PDict [(''title'', PStr ''T''), (''count'', PInt 3)]) = ''T 3''"
    using concise_summary_tiers
            [where kvs = "[(''title'', PStr ''T''), (''count'', PInt 3)]",
             THEN conjunct2, THEN conjunct2, THEN conjunct2, THEN conjunct1]
    by (simp add: nonempty_field_def first_nonempty_def str_int_def hex_digit_def)
qed

subsection \<open>C5: the shape of a response\<close>

text \<open>
  What the handler returns, when it returns, is the success envelope with status 200 and
  exactly the fields \<^verbatim>\<open>answer\<close>, \<^verbatim>\<open>raw\<close> and \<^verbatim>\<open>structured\<close>, or an error payload
  with status 500. In a success the chain's output is always a dictionary and is passed on
  as it is: an output without \<^verbatim>\<open>.get\<close> makes line 191 raise, \<^verbatim>\<open>answer_text\<close> stays
  unbound, and the reformatting stage answers with a 500 error, so the wrapper of line 206
  never reaches a response.
\<close>

lemma returned_response_shape:
  assumes "handle_query G L req = (tr, Return resp)"
  shows "(status resp = 200
            \<and> (\<exists>q raw so parsed.
                  Synthesize q (Inr raw) \<in> set tr \<and> is_dict raw
                  \<and> Parse so (Inr parsed) \<in> set tr
                  \<and> body resp = [(''answer'', PStr (concise_of parsed)),
                                 (''raw'', raw), (''structured'', parsed)]))
       \<or> (status resp = 500 \<and> (\<exists>msg. body resp = [(''error'', PStr msg)]))"
  using handle_query_cases [OF assms]
  by (elim disjE exE conjE)
     (auto simp: error_response_def success_response_def parser_unavailable_def)

text \<open>
  C5 says that every successful response has the three fields and that every
  non-successful one carries an error instead. When the language model refuses the chain's
  call, with fetch, chunking and embedding done, the request ends without any payload:
  the handler raises the \<^verbatim>\<open>UnboundLocalError\<close> of the \<^verbatim>\<open>finally\<close> block.
\<close>

theorem failed_generation_has_no_payload:
  "handle_query demo_globals failing_chain_lib demo_request
     = ([Fetch (PStr ''http://example.org/cats''), Chunk 2000 200, Embed, BuildChain,
         Synthesize demo_query (Inl (Failure ''API key not valid''))],
        Raise (UnboundLocalError ''raw_answer''))"
  by (rule failing_chain_run)

subsection \<open>C6: which parse results are accepted\<close>

text \<open>
  C6 says that a parse result is accepted exactly when it is a mapping or a sequence of
  mappings. The list \<^verbatim>\<open>["a"]\<close> is neither, and the handler answers it with the
  success envelope.
\<close>

theorem bare_sequence_accepted_counterexample:
  "\<not> spec_valid_shape (PList [PStr ''a''])
   \<and> snd (handle_query demo_globals (stub_lib (Inr (PList [PStr ''a'']))) demo_request)
       = Return \<lparr>status = 200,
                 body = [(''answer'', PStr ''a''), (''raw'', demo_raw),
                         (''structured'', PList [PStr ''a''])]\<rparr>"
proof -
  have "concise_of (PList [PStr ''a'']) = ''a''"
    by (simp add: concise_of_def concise_from_structured_def)
  then show ?thesis
    by (simp add: demo_run success_response_def spec_valid_shape_def)
qed

text \<open>
  C6, amended: a parse result is accepted, and answered with the success envelope,
  exactly when its top-level shape is a mapping or a sequence, whatever the elements of
  the sequence are; any other shape ends the request with status 500 and the message that
  the parser did not return structured data.
\<close>

theorem structured_shape_guard:
  assumes "handle_query G L req = (tr, out)"
    and "Parse so (Inr parsed) \<in> set tr"
  shows "(is_dict parsed \<or> is_list parsed \<longrightarrow>
            (\<exists>raw. out = Return (success_response (concise_of parsed) raw parsed)))
       \<and> (\<not> (is_dict parsed \<or> is_list parsed) \<longrightarrow>
            out = Return (error_response 500
                    ''StructuredOutputParser did not return structured data.''))"
  using handle_query_cases [OF assms(1)] assms(2)
  by (elim disjE exE conjE) (auto dest: no_parse_before)

theorem structured_shape_guard_witness:
  "snd (handle_query demo_globals (stub_lib (Inr (PList [PStr ''a'']))) demo_request)
       = Return (success_response (concise_of (PList [PStr ''a''])) demo_raw
                   (PList [PStr ''a'']))
   \<and> snd (handle_query demo_globals (stub_lib (Inr (PStr ''a''))) demo_request)
       = Return (error_response 500 ''StructuredOutputParser did not return structured data.'')"
proof -
  have r1: "handle_query demo_globals (stub_lib (Inr (PList [PStr ''a'']))) demo_request
     = (demo_trace @ demo_reformat_trace (PList [PStr ''a'']),
        Return (success_response (concise_of (PList [PStr ''a''])) demo_raw
                  (PList [PStr ''a''])))"
    by (rule demo_run) simp
  have r2: "handle_query demo_globals (stub_lib (Inr (PStr ''a''))) demo_request
     = (demo_trace @ demo_reformat_trace (PStr ''a''),
        Return (error_response 500
                  ''StructuredOutputParser did not return structured data.''))"
    by (rule demo_run_rejected) simp
  from structured_shape_guard [OF r1 parse_in_demo_trace]
       structured_shape_guard [OF r2 parse_in_demo_trace] r1 r2
  show ?thesis by simp
qed

subsection \<open>C9: uninitialised models\<close>

text \<open>
  C9: a request received while the language model or the embedding provider is
  \<^verbatim>\<open>None\<close> is answered with status 500 and an error payload before any library call
  of the pipeline is made, and the handler does not raise.
\<close>

theorem models_uninitialized_fail_fast:
  assumes "llm G = None \<or> embeddings G = None"
  shows "handle_query G L req =
           ([], Return \<lparr>status = 500,
                        body = [(''error'',
                                 PStr ''AI models are not initialized. Check server logs.'')]\<rparr>)"
  using assms by (auto simp: handle_query_def error_response_def split: option.splits)

theorem models_uninitialized_fail_fast_witness:
  "llm no_llm_globals = None
   \<and> handle_query no_llm_globals (stub_lib (Inr (PDict []))) demo_request
     = ([], Return \<lparr>status = 500,
                    body = [(''error'',
                             PStr ''AI models are not initialized. Check server logs.'')]\<rparr>)"
proof -
  have h: "llm no_llm_globals = None \<or> embeddings no_llm_globals = None"
    by (simp add: no_llm_globals_def)
  from models_uninitialized_fail_fast [OF h, of "stub_lib (Inr (PDict []))" demo_request]
  show ?thesis by (simp add: no_llm_globals_def)
qed

subsection \<open>C10: an empty structured result\<close>

text \<open>
  C10: when the parse succeeds with an empty mapping, an empty sequence, or a mapping all
  of whose values are empty (falsy), the handler still returns the success envelope, with
  the empty string as \<^verbatim>\<open>answer\<close>.
\<close>

theorem empty_structured_result_succeeds:
  assumes "handle_query G L req = (tr, out)"
    and "Parse so (Inr parsed) \<in> set tr"
    and "parsed = PDict [] \<or> parsed = PList []
           \<or> (\<exists>kvs. parsed = PDict kvs \<and> list_all (\<lambda>v. \<not> truthy v) (map snd kvs))"
  shows "\<exists>raw. out = Return \<lparr>status = 200,
                    body = [(''answer'', PStr []), (''raw'', raw), (''structured'', parsed)]\<rparr>"
proof -
  from assms(3) have shape: "is_dict parsed \<or> is_list parsed" and c: "concise_of parsed = []"
    by (auto simp: concise_of_all_falsy concise_of_empty_list)
  from accepted_after_parse [OF assms(1,2) shape] c show ?thesis
    by (auto simp: success_response_def)
qed

theorem empty_structured_result_succeeds_witness:
  "snd (handle_query demo_globals
          (stub_lib (Inr (PDict [(''title'', PStr []), (''sections'', PList [])]))) demo_request)
     = Return \<lparr>status = 200,
               body = [(''answer'', PStr []), (''raw'', demo_raw),
                       (''structured'', PDict [(''title'', PStr []), (''sections'', PList [])])]\<rparr>"
proof -
  let ?p = "PDict [(''title'', PStr []), (''sections'', PList [])]"
  have r: "handle_query demo_globals (stub_lib (Inr ?p)) demo_request
     = (demo_trace @ demo_reformat_trace ?p,
        Return (success_response (concise_of ?p) demo_raw ?p))"
    by (rule demo_run) simp
  have h: "?p = PDict [] \<or> ?p = PList []
           \<or> (\<exists>kvs. ?p = PDict kvs \<and> list_all (\<lambda>v. \<not> truthy v) (map snd kvs))"
    by simp
  from empty_structured_result_succeeds [OF r parse_in_demo_trace h] r show ?thesis
    by (auto simp: success_response_def)
qed

end
